theory Spec2Isabelle
  imports Complex_Main
begin

section \<open>Data model\<close>

text \<open>
  The records follow the objects the backtest page builds and reads
  (\<^verbatim>\<open>BacktestConfig\<close>, \<^verbatim>\<open>BacktestResult\<close>, \<^verbatim>\<open>StrategyInfo\<close> of \<^verbatim>\<open>@/lib/types\<close>)
  and section 3 of the specification. JavaScript numbers are idealised as reals;
  calendar dates inside a result are day numbers.
\<close>

datatype exit_reason = signal | stop_loss_exit | take_profit_exit | end_of_period

record Trade =
  entry_date :: int
  exit_date :: int
  entry_price :: real
  exit_price :: real
  shares :: real
  pnl :: real
  return_pct :: real
  hold_days :: int
  exit_reason :: exit_reason

record BacktestResult =
  final_value :: real
  total_return :: real
  annual_return :: real
  volatility :: real
  sharpe_ratio :: real
  max_drawdown :: real
  total_trades :: nat
  win_rate :: real
  benchmark_return :: real
  alpha :: real
  trades :: "Trade list"

text \<open>The form state of the backtest page (\<^verbatim>\<open>useState<BacktestConfig>\<close>).\<close>

record BacktestConfig =
  strategy_type :: string
  ticker :: string
  start_date :: string
  end_date :: string
  initial_capital :: real
  position_size :: real
  commission :: real
  slippage :: real
  stop_loss :: "real option"
  take_profit :: "real option"

record StrategyInfo =
  name :: string
  display_name :: string

section \<open>The useBacktest hook\<close>

text \<open>
  A value thrown by \<^verbatim>\<open>runBacktest\<close> is either an instance of \<^verbatim>\<open>Error\<close>, carrying its
  message, or some other value. Awaiting the call settles in one of two ways.
\<close>

datatype thrown = Error string | NonError

datatype settled = Resolved BacktestResult | Rejected thrown

text \<open>What the promise returned by \<^verbatim>\<open>run\<close> settles to for its caller.\<close>

datatype completion = Returned BacktestResult | Thrown thrown

record hook_state =
  isRunning :: bool
  result :: "BacktestResult option"
  error :: "string option"

text \<open>The three \<^verbatim>\<open>useState\<close> initial values.\<close>

definition initial_state :: hook_state where
  "initial_state = \<lparr>isRunning = False, result = None, error = None\<rparr>"

text \<open>\<^verbatim>\<open>err instanceof Error ? err.message : "Backtest failed"\<close>\<close>

fun error_message :: "thrown \<Rightarrow> string" where
  "error_message (Error m) = m"
| "error_message NonError = ''Backtest failed''"

text \<open>
  \<^verbatim>\<open>run\<close> executes in two uninterrupted segments, separated by the \<^verbatim>\<open>await\<close>:
  \<open>run_begin\<close> is the code before it (lines 25 to 27), \<open>run_settle\<close> the
  \<^verbatim>\<open>try\<close>/\<^verbatim>\<open>catch\<close>/\<^verbatim>\<open>finally\<close> continuation once the call has settled.
\<close>

definition run_begin :: "hook_state \<Rightarrow> hook_state" where
  "run_begin s = s\<lparr>isRunning := True, error := None, result := None\<rparr>"

fun run_settle :: "settled \<Rightarrow> hook_state \<Rightarrow> hook_state \<times> completion" where
  "run_settle (Resolved data) s = (s\<lparr>result := Some data, isRunning := False\<rparr>, Returned data)"
| "run_settle (Rejected err) s =
     (s\<lparr>error := Some (error_message err), isRunning := False\<rparr>, Thrown err)"

text \<open>
  One invocation of \<^verbatim>\<open>run(config)\<close> from call to settlement; \<open>api\<close> stands for
  \<^verbatim>\<open>runBacktest\<close> of \<^verbatim>\<open>@/lib/api\<close>.
\<close>

definition run :: "(BacktestConfig \<Rightarrow> settled) \<Rightarrow> BacktestConfig \<Rightarrow> hook_state
    \<Rightarrow> hook_state \<times> completion" where
  "run api config s = run_settle (api config) (run_begin s)"

definition reset :: "hook_state \<Rightarrow> hook_state" where
  "reset s = s\<lparr>result := None, error := None, isRunning := False\<rparr>"

text \<open>
  The hook does not serialise its callers: a second \<^verbatim>\<open>run\<close> or a \<^verbatim>\<open>reset\<close> may execute
  while an earlier call is still awaited. A history of the hook is therefore a list of
  the uninterrupted segments in the order in which they executed.
\<close>

datatype event = Begin | Settle settled | Reset

fun apply_event :: "hook_state \<Rightarrow> event \<Rightarrow> hook_state" where
  "apply_event s Begin = run_begin s"
| "apply_event s (Settle outcome) = fst (run_settle outcome s)"
| "apply_event s Reset = reset s"

definition exec :: "event list \<Rightarrow> hook_state" where
  "exec es = foldl apply_event initial_state es"

text \<open>
  \<open>well_formed n es\<close>: with \<open>n\<close> calls awaited, every settlement in \<open>es\<close> belongs to a
  call that began earlier. \<open>serial n es\<close>: moreover a call begins only when none is
  awaited, which is what the page arranges by disabling its submit button while
  \<^verbatim>\<open>isRunning\<close>.
\<close>

fun well_formed :: "nat \<Rightarrow> event list \<Rightarrow> bool" where
  "well_formed n [] = True"
| "well_formed n (Begin # es) = well_formed (Suc n) es"
| "well_formed n (Settle outcome # es) = (0 < n \<and> well_formed (n - 1) es)"
| "well_formed n (Reset # es) = well_formed n es"

fun serial :: "nat \<Rightarrow> event list \<Rightarrow> bool" where
  "serial n [] = True"
| "serial n (Begin # es) = (n = 0 \<and> serial 1 es)"
| "serial n (Settle outcome # es) = (n = 1 \<and> serial 0 es)"
| "serial n (Reset # es) = serial n es"

text \<open>
  The guards the page puts on the hook: the submit button is disabled while
  \<^verbatim>\<open>isRunning\<close>, and the Reset button is rendered only when there is a result.
\<close>

fun page_allows :: "hook_state \<Rightarrow> event list \<Rightarrow> bool" where
  "page_allows s [] = True"
| "page_allows s (Begin # es) = (\<not> isRunning s \<and> page_allows (run_begin s) es)"
| "page_allows s (Settle outcome # es) = page_allows (fst (run_settle outcome s)) es"
| "page_allows s (Reset # es) = (result s \<noteq> None \<and> page_allows (reset s) es)"

definition sample_result :: BacktestResult where
  "sample_result = \<lparr>final_value = 100000, total_return = 0, annual_return = 0,
     volatility = 0, sharpe_ratio = 0, max_drawdown = 0, total_trades = 0, win_rate = 0,
     benchmark_return = 0, alpha = 0, trades = []\<rparr>"

section \<open>The backtest page\<close>

subsection \<open>Form state and change handlers\<close>

text \<open>The initial value of the page's \<^verbatim>\<open>config\<close> state.\<close>

definition initial_config :: BacktestConfig where
  "initial_config = \<lparr>strategy_type = ''buy_hold'', ticker = ''AAPL'',
     start_date = ''2023-01-01'', end_date = ''2024-01-01'', initial_capital = 100000,
     position_size = 1, commission = 1 / 1000, slippage = 1 / 1000,
     stop_loss = None, take_profit = None\<rparr>"

text \<open>
  \<^verbatim>\<open>String.prototype.toUpperCase\<close> on the letters a to z (character codes 97 to 122);
  every other character of a \<open>string\<close> is left as it is.
\<close>

definition is_lower :: "char \<Rightarrow> bool" where
  "is_lower c = (97 \<le> (of_char c :: nat) \<and> (of_char c :: nat) \<le> 122)"

definition upper_char :: "char \<Rightarrow> char" where
  "upper_char c = (if is_lower c then char_of ((of_char c :: nat) - 32) else c)"

definition toUpperCase :: "string \<Rightarrow> string" where
  "toUpperCase s = map upper_char s"

text \<open>
  \<^verbatim>\<open>e.target.value\<close> of an \<^verbatim>\<open><input type="number">\<close>: the empty string, or the text of
  a number. The empty string is falsy and \<^verbatim>\<open>Number("")\<close> is 0.
\<close>

datatype number_text = Blank | Digits real

fun Number_of :: "number_text \<Rightarrow> real" where
  "Number_of Blank = 0"
| "Number_of (Digits v) = v"

text \<open>\<^verbatim>\<open>e.target.value ? Number(e.target.value) : null\<close>\<close>

fun optional_number :: "number_text \<Rightarrow> real option" where
  "optional_number Blank = None"
| "optional_number (Digits v) = Some v"

text \<open>One constructor per \<^verbatim>\<open>onChange\<close> handler of the form, in the order of the page.\<close>

datatype form_event =
    ChangeStrategy string
  | ChangeTicker string
  | ChangeStartDate string
  | ChangeEndDate string
  | ChangeInitialCapital number_text
  | ChangePositionSize number_text
  | ChangeStopLoss number_text
  | ChangeTakeProfit number_text

fun on_change :: "BacktestConfig \<Rightarrow> form_event \<Rightarrow> BacktestConfig" where
  "on_change config (ChangeStrategy v) = config\<lparr>strategy_type := v\<rparr>"
| "on_change config (ChangeTicker v) = config\<lparr>ticker := toUpperCase v\<rparr>"
| "on_change config (ChangeStartDate v) = config\<lparr>start_date := v\<rparr>"
| "on_change config (ChangeEndDate v) = config\<lparr>end_date := v\<rparr>"
| "on_change config (ChangeInitialCapital v) = config\<lparr>initial_capital := Number_of v\<rparr>"
| "on_change config (ChangePositionSize v) = config\<lparr>position_size := Number_of v\<rparr>"
| "on_change config (ChangeStopLoss v) = config\<lparr>stop_loss := optional_number v\<rparr>"
| "on_change config (ChangeTakeProfit v) = config\<lparr>take_profit := optional_number v\<rparr>"

definition form_config :: "form_event list \<Rightarrow> BacktestConfig" where
  "form_config evs = foldl on_change initial_config evs"

subsection \<open>What the form lets through\<close>

text \<open>
  The inputs are controlled: after each render a field shows its \<^verbatim>\<open>value\<close> property.
  For the two optional fields this is \<^verbatim>\<open>config.stop_loss || ""\<close>, so a stored null and
  a stored 0 both show an empty field.
\<close>

fun shown_optional :: "real option \<Rightarrow> number_text" where
  "shown_optional None = Blank"
| "shown_optional (Some v) = (if v = 0 then Blank else Digits v)"

text \<open>
  The form has no \<^verbatim>\<open>noValidate\<close>, so the browser fires \<^verbatim>\<open>onSubmit\<close> only when every
  field passes constraint validation. For a number input that is not \<^verbatim>\<open>required\<close>:
  an empty field passes; a number passes when it is at least \<^verbatim>\<open>min\<close>, at most
  \<^verbatim>\<open>max\<close> (if given) and a whole number of \<^verbatim>\<open>step\<close>s away from \<^verbatim>\<open>min\<close>.
\<close>

definition number_input_valid :: "real \<Rightarrow> real option \<Rightarrow> real \<Rightarrow> number_text \<Rightarrow> bool" where
  "number_input_valid min_attr max_attr step_attr txt =
     (case txt of
        Blank \<Rightarrow> True
      | Digits v \<Rightarrow>
          min_attr \<le> v
          \<and> (case max_attr of None \<Rightarrow> True | Some m \<Rightarrow> v \<le> m)
          \<and> of_int \<lfloor>(v - min_attr) / step_attr\<rfloor> = (v - min_attr) / step_attr)"

definition form_valid :: "BacktestConfig \<Rightarrow> bool" where
  "form_valid config =
     (number_input_valid 1000 None 1000 (Digits (initial_capital config))
      \<and> number_input_valid (1 / 10) (Some 1) (1 / 10) (Digits (position_size config))
      \<and> number_input_valid (1 / 100) (Some 1) (1 / 100) (shown_optional (stop_loss config))
      \<and> number_input_valid (1 / 100) (Some 5) (1 / 100) (shown_optional (take_profit config)))"

text \<open>
  \<^verbatim>\<open>handleSubmit\<close>: the submit button is disabled while \<^verbatim>\<open>isRunning\<close>; otherwise a valid
  form hands its state to \<^verbatim>\<open>run\<close>.
\<close>

definition handleSubmit :: "(BacktestConfig \<Rightarrow> settled) \<Rightarrow> BacktestConfig \<Rightarrow> hook_state
    \<Rightarrow> (hook_state \<times> completion) option" where
  "handleSubmit api config s =
     (if form_valid config \<and> \<not> isRunning s then Some (run api config s) else None)"

subsection \<open>Rendering\<close>

record select_option =
  option_value :: string
  option_label :: string

text \<open>
  The children of the strategy \<^verbatim>\<open><select>\<close>. \<open>strategiesData\<close> is the \<^verbatim>\<open>strategies\<close>
  array of the query's data, \<open>None\<close> while the data is undefined. An \<^verbatim>\<open><option>\<close>
  without a \<^verbatim>\<open>value\<close> attribute submits its text.
\<close>

definition strategy_options :: "bool \<Rightarrow> StrategyInfo list option \<Rightarrow> select_option list" where
  "strategy_options strategiesLoading strategiesData =
     (if strategiesLoading
      then [\<lparr>option_value = ''Loading...'', option_label = ''Loading...''\<rparr>]
      else (case strategiesData of
              None \<Rightarrow> []
            | Some strategies \<Rightarrow>
                map (\<lambda>s. \<lparr>option_value = name s, option_label = display_name s\<rparr>) strategies))"

text \<open>The blocks of the results column, top to bottom (lines 200 to 330 of the page).\<close>

datatype panel =
    ErrorBanner string
  | PerformanceMetrics BacktestResult
  | TradeHistory "Trade list"
  | NoTradesMessage
  | Placeholder

definition results_panel :: "hook_state \<Rightarrow> panel list" where
  "results_panel s =
     (case error s of
        None \<Rightarrow> []
      | Some msg \<Rightarrow> (if msg = [] then [] else [ErrorBanner msg]))
     @ (case result s of
          Some r \<Rightarrow>
            [PerformanceMetrics r]
            @ (if length (trades r) > 0 then [TradeHistory (trades r)] else [])
            @ (if length (trades r) = 0 then [NoTradesMessage] else [])
        | None \<Rightarrow> [Placeholder])"

section \<open>The backtest engine\<close>

text \<open>
  The engine behind \<^verbatim>\<open>runBacktest\<close> (strategy policies, execution simulator, performance
  analyzer, orchestrator) is the repository's server side, of which only the client is
  available. Every definition of this section is therefore modelled from the
  specification, sections 3, 4 and 7, over exact real arithmetic.
\<close>

subsection \<open>Bars and strategy policies\<close>

text \<open>
  Modelled from the spec: the Bar of section 3 (the engine's bar type is missing);
  \<open>date\<close> is a day number, and the field \<open>open\<close> is written \<open>open'\<close>.
\<close>

record Bar =
  date :: int
  open' :: real
  high :: real
  low :: real
  close :: real
  volume :: real

text \<open>Modelled from the spec: the three decisions of a Strategy Policy (section 4.1).\<close>

datatype decision = Enter | Exit | Hold

text \<open>
  Modelled from the spec: the strategy variants of section 4.1 as a closed set of tagged
  variants (section 9); the moving-average crossover carries its fast and slow periods,
  the RSI mean reversion its oversold and overbought thresholds.
\<close>

datatype strategy =
    BuyAndHold
  | MovingAverageCrossover nat nat
  | RSIMeanReversion real real

text \<open>
  Modelled from the spec: the moving average of the closes of the last \<open>n\<close> visible
  bars (section 4.1; the engine's indicator code is missing).
\<close>

definition moving_average :: "nat \<Rightarrow> Bar list \<Rightarrow> real" where
  "moving_average n history =
     sum_list (map close (drop (length history - n) history)) / real n"

text \<open>
  Modelled from the spec: RSI(14) over the visible history (section 4.1 names the
  indicator only): the average gain and the average loss over the last 14 close to
  close changes, RSI = 100 - 100 / (1 + gain / loss), and 100 when there is no loss.
\<close>

definition rsi :: "Bar list \<Rightarrow> real" where
  "rsi history =
     (let closes = map close (drop (length history - 15) history);
          changes = map2 (\<lambda>prev cur. cur - prev) (butlast closes) (tl closes);
          gain = sum_list (map (\<lambda>d. max d 0) changes) / 14;
          loss = sum_list (map (\<lambda>d. max (- d) 0) changes) / 14
      in if loss = 0 then 100 else 100 - 100 / (1 + gain / loss))"

text \<open>
  Modelled from the spec: the warm-up window of the glossary, the least number of
  visible bars with which a policy can decide anything but Hold. A cross compares this
  bar with the prior one, so both need their full window.
\<close>

fun warm_up :: "strategy \<Rightarrow> nat" where
  "warm_up BuyAndHold = 1"
| "warm_up (MovingAverageCrossover fast slow) = Suc (max fast slow)"
| "warm_up (RSIMeanReversion oversold overbought) = 16"

text \<open>
  Modelled from the spec: the Strategy Policy contract of section 4.1. \<open>history\<close> is
  the bars from the start of the series up to and including the current one.
  Buy-and-hold enters on the first bar and never exits; the crossover enters when the
  fast average was at most the slow one on the prior bar and is above it now, and exits
  on the symmetric downward cross; RSI mean reversion enters when RSI crosses below the
  oversold threshold and exits when it crosses above the overbought one. Warm-up bars
  give Hold, and so does a crossover with a period of 0.
\<close>

fun decide :: "strategy \<Rightarrow> Bar list \<Rightarrow> decision" where
  "decide BuyAndHold history = (if length history = 1 then Enter else Hold)"
| "decide (MovingAverageCrossover fast slow) history =
     (let prior = butlast history in
      if length history < warm_up (MovingAverageCrossover fast slow) \<or> fast = 0 \<or> slow = 0
      then Hold
      else if moving_average fast prior \<le> moving_average slow prior
            \<and> moving_average fast history > moving_average slow history then Enter
      else if moving_average fast prior \<ge> moving_average slow prior
            \<and> moving_average fast history < moving_average slow history then Exit
      else Hold)"
| "decide (RSIMeanReversion oversold overbought) history =
     (let prior = butlast history in
      if length history < warm_up (RSIMeanReversion oversold overbought) then Hold
      else if rsi prior \<ge> oversold \<and> rsi history < oversold then Enter
      else if rsi prior \<le> overbought \<and> rsi history > overbought then Exit
      else Hold)"

subsection \<open>Execution simulator\<close>

text \<open>
  Modelled from the spec: the Position of section 3 as the two states of the simulator
  (section 4.2); \<open>Long\<close> carries entry date, entry price and shares.
\<close>

datatype position = Flat | Long int real real

text \<open>
  Modelled from the spec: the state threaded through the per-bar loop (section 9):
  position, free capital, the Trade Ledger and the EquityCurve built so far.
\<close>

record sim_state =
  position :: position
  capital :: real
  ledger :: "Trade list"
  equity_curve :: "real list"

text \<open>
  Modelled from the spec: step 2 of section 4.2. A buy fills at close times
  (1 + slippage); shares are fractional, position_size times the available capital
  over the fill price; the commission on the notional is deducted from capital.
\<close>

definition open_position :: "BacktestConfig \<Rightarrow> Bar \<Rightarrow> sim_state \<Rightarrow> sim_state" where
  "open_position config bar st =
     (let fill_price = close bar * (1 + slippage config);
          n_shares = position_size config * capital st / fill_price;
          notional = n_shares * fill_price;
          fee = commission config * notional
      in st\<lparr>position := Long (date bar) fill_price n_shares,
            capital := capital st - notional - fee\<rparr>)"

text \<open>
  Modelled from the spec: closing a position (step 3 and step 5 of section 4.2). A sell
  fills at the given price times (1 - slippage); the commission on the exit notional is
  charged; the capital is released and a Trade is appended to the ledger. The spec
  names the fields of a Trade but not their formulas: \<open>pnl\<close> is taken net of both
  commissions, \<open>return_pct\<close> relative to the entry notional.
\<close>

definition close_position ::
    "BacktestConfig \<Rightarrow> int \<Rightarrow> real \<Rightarrow> exit_reason \<Rightarrow> sim_state \<Rightarrow> sim_state" where
  "close_position config day price reason st =
     (case position st of
        Flat \<Rightarrow> st
      | Long entered entry n_shares \<Rightarrow>
          (let fill_price = price * (1 - slippage config);
               proceeds = n_shares * fill_price;
               fee = commission config * proceeds;
               cost = n_shares * entry;
               profit = proceeds - fee - cost - commission config * cost
           in st\<lparr>position := Flat,
                 capital := capital st + proceeds - fee,
                 ledger := ledger st @
                   [\<lparr>entry_date = entered, exit_date = day, entry_price = entry,
                     exit_price = fill_price, shares = n_shares, pnl = profit,
                     return_pct = profit / cost, hold_days = day - entered,
                     exit_reason = reason\<rparr>]\<rparr>))"

text \<open>
  Modelled from the spec: the exit triggers of step 3 in their fixed priority: stop
  loss when the bar's low reaches entry times (1 - stop_loss), then take profit when
  the bar's high reaches entry times (1 + take_profit), then the policy's Exit at the
  close. The result is the exit reason and the price before slippage.
\<close>

definition exit_trigger ::
    "BacktestConfig \<Rightarrow> decision \<Rightarrow> Bar \<Rightarrow> real \<Rightarrow> (exit_reason \<times> real) option" where
  "exit_trigger config d bar entry =
     (let stop =
            (case stop_loss config of
               None \<Rightarrow> None
             | Some sl \<Rightarrow>
                 if low bar \<le> entry * (1 - sl) then Some (stop_loss_exit, entry * (1 - sl))
                 else None);
          target =
            (case take_profit config of
               None \<Rightarrow> None
             | Some tp \<Rightarrow>
                 if high bar \<ge> entry * (1 + tp) then Some (take_profit_exit, entry * (1 + tp))
                 else None);
          sell = (if d = Exit then Some (signal, close bar) else None)
      in case stop of
           Some hit \<Rightarrow> Some hit
         | None \<Rightarrow> (case target of Some hit \<Rightarrow> Some hit | None \<Rightarrow> sell))"

text \<open>
  Modelled from the spec: step 4 of section 4.2, the mark-to-market value at the bar's
  close.
\<close>

definition mark_to_market :: "Bar \<Rightarrow> sim_state \<Rightarrow> real" where
  "mark_to_market bar st =
     (case position st of
        Flat \<Rightarrow> capital st
      | Long entered entry n_shares \<Rightarrow> capital st + n_shares * close bar)"

text \<open>
  Modelled from the spec: one bar of the per-bar algorithm (steps 2 to 4 of section
  4.2), one transition of the Flat/Long state machine per bar, on the decision the
  policy gave for this bar.
\<close>

definition step :: "BacktestConfig \<Rightarrow> decision \<Rightarrow> Bar \<Rightarrow> sim_state \<Rightarrow> sim_state" where
  "step config d bar st =
     (let st' =
        (case position st of
           Flat \<Rightarrow> if d = Enter then open_position config bar st else st
         | Long entered entry n_shares \<Rightarrow>
             (case exit_trigger config d bar entry of
                Some (reason, price) \<Rightarrow> close_position config (date bar) price reason st
              | None \<Rightarrow> st))
      in st'\<lparr>equity_curve := equity_curve st' @ [mark_to_market bar st']\<rparr>)"

text \<open>
  Modelled from the spec: the single walk over the Bar Series (section 4.2). \<open>seen\<close>
  is the bars already processed, so the policy is asked with the bars up to and
  including the current one and never with a later bar.
\<close>

fun walk :: "BacktestConfig \<Rightarrow> strategy \<Rightarrow> Bar list \<Rightarrow> Bar list \<Rightarrow> sim_state \<Rightarrow> sim_state" where
  "walk config strat seen [] st = st"
| "walk config strat seen (bar # rest) st =
     walk config strat (seen @ [bar]) rest
       (step config (decide strat (seen @ [bar])) bar st)"

text \<open>
  Modelled from the spec: step 5 of section 4.2: after the last bar an open position
  is closed at the final bar's close with exit reason end_of_period.
\<close>

definition force_close :: "BacktestConfig \<Rightarrow> Bar list \<Rightarrow> sim_state \<Rightarrow> sim_state" where
  "force_close config bars st =
     (case bars of
        [] \<Rightarrow> st
      | _ \<Rightarrow> close_position config (date (last bars)) (close (last bars)) end_of_period st)"

text \<open>
  Modelled from the spec: the Execution Simulator of section 4.2, from the initial
  state (Flat, all capital free, nothing recorded) to the terminal Flat state.
\<close>

definition simulate :: "BacktestConfig \<Rightarrow> strategy \<Rightarrow> Bar list \<Rightarrow> sim_state" where
  "simulate config strat bars =
     force_close config bars
       (walk config strat [] bars
          \<lparr>position = Flat, capital = initial_capital config, ledger = [], equity_curve = []\<rparr>)"

subsection \<open>Performance analyzer\<close>

text \<open>
  Modelled from the spec: the daily returns of section 4.3, the period over period
  percentage change of the EquityCurve.
\<close>

definition daily_returns :: "real list \<Rightarrow> real list" where
  "daily_returns curve = map2 (\<lambda>prev cur. cur / prev - 1) (butlast curve) (tl curve)"

text \<open>Modelled from the spec: the mean of the daily returns (section 4.3).\<close>

definition mean :: "real list \<Rightarrow> real" where
  "mean xs = sum_list xs / real (length xs)"

text \<open>
  Modelled from the spec: the standard deviation of the daily returns (section 4.3),
  the sample deviation, which needs two observations; 0 with fewer.
\<close>

definition stdev :: "real list \<Rightarrow> real" where
  "stdev xs =
     (if length xs < 2 then 0
      else sqrt (sum_list (map (\<lambda>x. (x - mean xs)\<^sup>2) xs) / real (length xs - 1)))"

text \<open>
  Modelled from the spec: volatility, the standard deviation of the daily returns
  annualised by the square root of 252; 0 with fewer than two observations.
\<close>

definition volatility_of :: "real list \<Rightarrow> real" where
  "volatility_of curve =
     (let rets = daily_returns curve in
      if length rets < 2 then 0 else stdev rets * sqrt 252)"

text \<open>
  Modelled from the spec: the Sharpe ratio at a risk-free rate of 0, mean over standard
  deviation of the daily returns times the square root of 252, defined as 0 when the
  deviation is 0.
\<close>

definition sharpe_ratio_of :: "real list \<Rightarrow> real" where
  "sharpe_ratio_of curve =
     (let rets = daily_returns curve in
      if stdev rets = 0 then 0 else mean rets / stdev rets * sqrt 252)"

text \<open>
  Modelled from the spec: the maximum drawdown, the largest (peak - value) / peak over
  the running peaks of the EquityCurve. \<open>drawdown_from\<close> carries the running peak and
  the largest drawdown so far.
\<close>

fun drawdown_from :: "real \<Rightarrow> real \<Rightarrow> real list \<Rightarrow> real" where
  "drawdown_from peak worst [] = worst"
| "drawdown_from peak worst (v # vs) =
     (let peak' = max peak v in drawdown_from peak' (max worst ((peak' - v) / peak')) vs)"

text \<open>Modelled from the spec: the maximum drawdown of a whole EquityCurve.\<close>

definition max_drawdown_of :: "real list \<Rightarrow> real" where
  "max_drawdown_of curve = (case curve of [] \<Rightarrow> 0 | v # vs \<Rightarrow> drawdown_from v 0 vs)"

text \<open>
  Modelled from the spec: the win rate, the share of trades with a positive pnl; 0
  when there is no trade.
\<close>

definition win_rate_of :: "Trade list \<Rightarrow> real" where
  "win_rate_of ts =
     (if length ts = 0 then 0
      else real (length (filter (\<lambda>t. pnl t > 0) ts)) / real (length ts))"

text \<open>
  Modelled from the spec: the compound annual growth rate over the calendar span
  between the first and the last bar; 0 when the span is 0 days.
\<close>

definition annual_return_of :: "real \<Rightarrow> int \<Rightarrow> real" where
  "annual_return_of ret elapsed_days =
     (if elapsed_days = 0 then 0
      else (1 + ret) powr ((1461 / 4) / real_of_int elapsed_days) - 1)"

text \<open>
  Modelled from the spec: the benchmark, the buy-and-hold total return of the same Bar
  Series, last close over first close less 1.
\<close>

definition benchmark_of :: "Bar list \<Rightarrow> real" where
  "benchmark_of bars = close (last bars) / close (hd bars) - 1"

text \<open>
  Modelled from the spec: the Performance Analyzer of section 4.3, assembling the
  BacktestResult from the terminal state of the simulator. \<open>final_value\<close> is the
  capital once the last position is closed.
\<close>

definition analyze :: "BacktestConfig \<Rightarrow> Bar list \<Rightarrow> sim_state \<Rightarrow> BacktestResult" where
  "analyze config bars st =
     (let ret = capital st / initial_capital config - 1;
          bench = benchmark_of bars
      in \<lparr>final_value = capital st,
          total_return = ret,
          annual_return = annual_return_of ret (date (last bars) - date (hd bars)),
          volatility = volatility_of (equity_curve st),
          sharpe_ratio = sharpe_ratio_of (equity_curve st),
          max_drawdown = max_drawdown_of (equity_curve st),
          total_trades = length (ledger st),
          win_rate = win_rate_of (ledger st),
          benchmark_return = bench,
          alpha = ret - bench,
          trades = ledger st\<rparr>)"

subsection \<open>Orchestrator\<close>

text \<open>
  Modelled from the spec: the error taxonomy of section 7. A validation error names the
  offending field.
\<close>

datatype backtest_error = ValidationError string | DataAvailabilityError

text \<open>
  Modelled from the spec: date ordering for dates written year-month-day, as the form
  sends them: the earlier date is the smaller string, character by character.
\<close>

fun date_before :: "string \<Rightarrow> string \<Rightarrow> bool" where
  "date_before [] [] = False"
| "date_before [] (y # ys) = True"
| "date_before (x # xs) [] = False"
| "date_before (x # xs) (y # ys) =
     ((of_char x :: nat) < of_char y \<or> (x = y \<and> date_before xs ys))"

text \<open>
  Modelled from the spec: validation (sections 4.4 and 7), before any data is fetched:
  a registered strategy identifier, a non-empty ticker, start before end, positive
  capital, position size in (0, 1], non-negative costs. \<open>registry\<close> is the table of
  registered strategy identifiers; the variant is resolved here, once.
\<close>

definition validate ::
    "(string \<Rightarrow> strategy option) \<Rightarrow> BacktestConfig \<Rightarrow> backtest_error + strategy" where
  "validate registry config =
     (case registry (strategy_type config) of
        None \<Rightarrow> Inl (ValidationError ''strategy_type'')
      | Some strat \<Rightarrow>
          if ticker config = [] then Inl (ValidationError ''ticker'')
          else if \<not> date_before (start_date config) (end_date config)
            then Inl (ValidationError ''start_date'')
          else if \<not> initial_capital config > 0 then Inl (ValidationError ''initial_capital'')
          else if \<not> (0 < position_size config \<and> position_size config \<le> 1)
            then Inl (ValidationError ''position_size'')
          else if commission config < 0 then Inl (ValidationError ''commission'')
          else if slippage config < 0 then Inl (ValidationError ''slippage'')
          else Inr strat)"

text \<open>
  Modelled from the spec: the Backtest Orchestrator of section 4.4. \<open>bars\<close> is the Bar
  Series the market-data collaborator returned for the configured range; an empty
  series is a data-availability error.
\<close>

definition run_backtest ::
    "(string \<Rightarrow> strategy option) \<Rightarrow> BacktestConfig \<Rightarrow> Bar list
      \<Rightarrow> backtest_error + BacktestResult" where
  "run_backtest registry config bars =
     (case validate registry config of
        Inl e \<Rightarrow> Inl e
      | Inr strat \<Rightarrow>
          if bars = [] then Inl DataAvailabilityError
          else Inr (analyze config bars (simulate config strat bars)))"

text \<open>
  A registry for examples: the page's default identifier and two further ones, with the
  usual parameters.
\<close>

definition sample_registry :: "string \<Rightarrow> strategy option" where
  "sample_registry ident =
     (if ident = ''buy_hold'' then Some BuyAndHold
      else if ident = ''ma_crossover'' then Some (MovingAverageCrossover 10 20)
      else if ident = ''rsi'' then Some (RSIMeanReversion 30 70)
      else None)"

text \<open>A bar whose four prices are all the given close.\<close>

definition flat_bar :: "int \<Rightarrow> real \<Rightarrow> Bar" where
  "flat_bar day price =
     \<lparr>date = day, open' = price, high = price, low = price, close = price, volume = 1000\<rparr>"

text \<open>The page's initial configuration with both costs set to 0.\<close>

definition zero_cost_config :: BacktestConfig where
  "zero_cost_config = initial_config\<lparr>commission := 0, slippage := 0\<rparr>"

section \<open>Properties of the hook\<close>

lemma serial_invariant:
  "serial n es \<Longrightarrow> (n = 1 \<longrightarrow> result s = None \<and> error s = None)
     \<Longrightarrow> result s = None \<or> error s = None
     \<Longrightarrow> result (foldl apply_event s es) = None \<or> error (foldl apply_event s es) = None"
proof (induction es arbitrary: n s)
  case Nil
  then show ?case by simp
next
  case (Cons e es)
  show ?case
  proof (cases e)
    case Begin
    with Cons.prems have rest: "serial 1 es" by simp
    have "result (foldl apply_event (run_begin s) es) = None
        \<or> error (foldl apply_event (run_begin s) es) = None"
      by (rule Cons.IH [OF rest]) (simp_all add: run_begin_def)
    then show ?thesis using Begin by simp
  next
    case (Settle outcome)
    with Cons.prems have n: "n = 1" and rest: "serial 0 es" by simp_all
    with Cons.prems have clean: "result s = None" "error s = None" by simp_all
    have one: "result (fst (run_settle outcome s)) = None
        \<or> error (fst (run_settle outcome s)) = None"
      using clean by (cases outcome) simp_all
    have "result (foldl apply_event (fst (run_settle outcome s)) es) = None
        \<or> error (foldl apply_event (fst (run_settle outcome s)) es) = None"
      by (rule Cons.IH [OF rest _ one]) simp
    then show ?thesis using Settle by simp
  next
    case Reset
    with Cons.prems have rest: "serial n es" by simp
    have "result (foldl apply_event (reset s) es) = None
        \<or> error (foldl apply_event (reset s) es) = None"
      by (rule Cons.IH [OF rest]) (simp_all add: reset_def)
    then show ?thesis using Reset by simp
  qed
qed

text \<open>
  Under the page's guards calls never overlap: while a call is awaited the submit
  button is disabled and, the result being null, there is no Reset button.
\<close>

lemma page_guards_serial:
  "well_formed n es \<Longrightarrow> page_allows s es \<Longrightarrow> n \<le> 1
     \<Longrightarrow> (n = 1 \<longrightarrow> isRunning s \<and> result s = None) \<Longrightarrow> serial n es"
proof (induction es arbitrary: n s)
  case Nil
  then show ?case by simp
next
  case (Cons e es)
  show ?case
  proof (cases e)
    case Begin
    with Cons.prems have idle: "n = 0" by auto
    with Begin Cons.prems have rest: "well_formed 1 es" "page_allows (run_begin s) es"
      by simp_all
    have "serial 1 es"
      by (rule Cons.IH [OF rest]) (simp_all add: run_begin_def)
    then show ?thesis using Begin idle by simp
  next
    case (Settle outcome)
    with Cons.prems have busy: "n = 1" by auto
    with Settle Cons.prems
    have rest: "well_formed 0 es" "page_allows (fst (run_settle outcome s)) es"
      by simp_all
    have "serial 0 es"
      by (rule Cons.IH [OF rest]) simp_all
    then show ?thesis using Settle busy by simp
  next
    case Reset
    with Cons.prems have idle: "n = 0" by auto
    with Reset Cons.prems have rest: "well_formed 0 es" "page_allows (reset s) es"
      by simp_all
    have "serial 0 es"
      by (rule Cons.IH [OF rest]) simp_all
    then show ?thesis using Reset idle by simp
  qed
qed

lemma page_histories_serial:
  "well_formed 0 es \<Longrightarrow> page_allows initial_state es \<Longrightarrow> serial 0 es"
  by (rule page_guards_serial [of 0 es initial_state]) simp_all



text \<open>
  Claim C8, as stated: after every completed operation at most one of result and error
  is non-null. Two overlapping calls refute it: both begin, the first resolves, then
  the second rejects; the rejection sets the error and leaves the first call's result
  in place.
\<close>

theorem overlapping_runs_counterexample:
  "well_formed 0 [Begin, Begin, Settle (Resolved sample_result), Settle (Rejected (Error ''HTTP 500''))]
   \<and> result (exec [Begin, Begin, Settle (Resolved sample_result),
                    Settle (Rejected (Error ''HTTP 500''))]) = Some sample_result
   \<and> error (exec [Begin, Begin, Settle (Resolved sample_result),
                   Settle (Rejected (Error ''HTTP 500''))]) = Some ''HTTP 500''"
  by (simp add: exec_def initial_state_def run_begin_def)

text \<open>
  Claim C8, amended: in every history in which calls of \<^verbatim>\<open>run\<close> do not overlap (resets
  may occur at any moment), at most one of result and error is non-null after every
  segment; \<^verbatim>\<open>run\<close> clears both before it awaits, a resolving call leaves the error null
  and a rejecting call leaves the result null.
\<close>

theorem serial_runs_exclusive:
  "(serial 0 es \<longrightarrow> result (exec es) = None \<or> error (exec es) = None)
   \<and> result (run_begin s) = None \<and> error (run_begin s) = None
   \<and> error (fst (run_settle (Resolved data) (run_begin s))) = None
   \<and> result (fst (run_settle (Rejected err) (run_begin s))) = None"
proof -
  have "serial 0 es \<Longrightarrow> result (exec es) = None \<or> error (exec es) = None"
    unfolding exec_def by (rule serial_invariant [of 0]) (simp_all add: initial_state_def)
  then show ?thesis by (auto simp: run_begin_def)
qed

theorem serial_runs_exclusive_witness:
  "serial 0 [Begin, Settle (Resolved sample_result), Begin, Reset, Settle (Rejected NonError)]
   \<and> result (exec [Begin, Settle (Resolved sample_result), Begin, Reset,
                    Settle (Rejected NonError)]) = None
   \<and> error (exec [Begin, Settle (Resolved sample_result), Begin, Reset,
                   Settle (Rejected NonError)]) = Some ''Backtest failed''"
proof -
  have "serial 0 [Begin, Settle (Resolved sample_result), Begin, Reset, Settle (Rejected NonError)]"
    by simp
  moreover have "error (exec [Begin, Settle (Resolved sample_result), Begin, Reset,
      Settle (Rejected NonError)]) = Some ''Backtest failed''"
    by (simp add: exec_def initial_state_def run_begin_def reset_def)
  ultimately show ?thesis
    using serial_runs_exclusive
      [of "[Begin, Settle (Resolved sample_result), Begin, Reset, Settle (Rejected NonError)]"]
    by auto
qed

text \<open>
  Claim C10. \<^verbatim>\<open>reset\<close> restores the initial state (result null, error null, not
  running) whatever the state before, and applying it twice is the same as applying it
  once.
\<close>

theorem reset_restores_initial:
  "reset s = initial_state
   \<and> result (reset s) = None \<and> error (reset s) = None \<and> \<not> isRunning (reset s)
   \<and> reset (reset s) = reset s"
  by (simp add: reset_def initial_state_def)

section \<open>Properties of the backtest page\<close>




text \<open>
  Claim C7. Once the strategies query is no longer loading, the options of the strategy
  control are exactly the entries the query returned, in order: one option per entry,
  its value the entry's \<^verbatim>\<open>name\<close> and its label the entry's \<^verbatim>\<open>display_name\<close>; choosing
  an option stores that name as the configuration's \<^verbatim>\<open>strategy_type\<close>.
\<close>

theorem strategy_options_from_query:
  assumes "\<not> strategiesLoading"
  shows "strategy_options strategiesLoading (Some strategies) =
           map (\<lambda>s. \<lparr>option_value = name s, option_label = display_name s\<rparr>) strategies
    \<and> strategy_options strategiesLoading None = []
    \<and> (\<forall>i < length strategies.
          strategy_type (on_change config
            (ChangeStrategy (option_value (strategy_options strategiesLoading (Some strategies) ! i))))
          = name (strategies ! i))"
  using assms by (simp add: strategy_options_def)

theorem strategy_options_from_query_witness:
  "strategy_options False
     (Some [\<lparr>name = ''buy_hold'', display_name = ''Buy and Hold''\<rparr>,
            \<lparr>name = ''ma_crossover'', display_name = ''Moving Average Crossover''\<rparr>])
   = [\<lparr>option_value = ''buy_hold'', option_label = ''Buy and Hold''\<rparr>,
      \<lparr>option_value = ''ma_crossover'', option_label = ''Moving Average Crossover''\<rparr>]
   \<and> strategy_type (on_change initial_config
        (ChangeStrategy (option_value (strategy_options False
          (Some [\<lparr>name = ''buy_hold'', display_name = ''Buy and Hold''\<rparr>,
                 \<lparr>name = ''ma_crossover'', display_name = ''Moving Average Crossover''\<rparr>]) ! 1))))
     = ''ma_crossover''"
  using strategy_options_from_query
      [of False "[\<lparr>name = ''buy_hold'', display_name = ''Buy and Hold''\<rparr>,
                  \<lparr>name = ''ma_crossover'', display_name = ''Moving Average Crossover''\<rparr>]"
          initial_config]
  by simp



text \<open>
  Claim C6, as stated: every configuration the form lets the user submit has a stop loss
  that is null or strictly between 0 and 1. Entering 1 refutes it: the field's
  \<^verbatim>\<open>max="1"\<close> admits the value 1 itself.
\<close>

theorem stop_loss_one_counterexample:
  "form_valid (form_config [ChangeStopLoss (Digits 1)])
   \<and> stop_loss (form_config [ChangeStopLoss (Digits 1)]) = Some 1
   \<and> \<not> (stop_loss (form_config [ChangeStopLoss (Digits 1)]) = None
        \<or> (\<exists>v. stop_loss (form_config [ChangeStopLoss (Digits 1)]) = Some v \<and> 0 < v \<and> v < 1))"
  by (simp add: form_config_def initial_config_def form_valid_def number_input_valid_def)

text \<open>
  A second way past the claim: a typed 0 is stored as 0, and \<^verbatim>\<open>config.stop_loss || ""\<close>
  then shows an empty field, which passes validation. The same holds for the take
  profit field.
\<close>

lemma zero_stop_loss_passes:
  "form_valid (form_config [ChangeStopLoss (Digits 0), ChangeTakeProfit (Digits 0)])
   \<and> stop_loss (form_config [ChangeStopLoss (Digits 0), ChangeTakeProfit (Digits 0)]) = Some 0
   \<and> take_profit (form_config [ChangeStopLoss (Digits 0), ChangeTakeProfit (Digits 0)]) = Some 0"
  by (simp add: form_config_def initial_config_def form_valid_def number_input_valid_def)

text \<open>
  Claim C6, amended: in every configuration the form lets the user submit, a stop loss
  that is neither null nor 0 lies between 0.01 and 1, both included (so it is a fraction
  greater than 0 and at most 1), and a take profit that is neither null nor 0 lies
  between 0.01 and 5, hence is strictly positive.
\<close>

theorem submitted_limits_in_range:
  assumes "handleSubmit api config s = Some outcome"
  shows "(stop_loss config = Some v \<and> v \<noteq> 0 \<longrightarrow> 1 / 100 \<le> v \<and> 0 < v \<and> v \<le> 1)
    \<and> (take_profit config = Some w \<and> w \<noteq> 0 \<longrightarrow> 1 / 100 \<le> w \<and> 0 < w \<and> w \<le> 5)"
  using assms
  by (auto simp: handleSubmit_def form_valid_def number_input_valid_def split: if_splits)

theorem submitted_limits_in_range_witness:
  "handleSubmit (\<lambda>c. Resolved sample_result)
       (form_config [ChangeStopLoss (Digits (7 / 100)), ChangeTakeProfit (Digits (5 / 2))])
       initial_state
     = Some (run (\<lambda>c. Resolved sample_result)
         (form_config [ChangeStopLoss (Digits (7 / 100)), ChangeTakeProfit (Digits (5 / 2))])
         initial_state)
   \<and> stop_loss (form_config [ChangeStopLoss (Digits (7 / 100)), ChangeTakeProfit (Digits (5 / 2))])
       = Some (7 / 100)
   \<and> take_profit (form_config [ChangeStopLoss (Digits (7 / 100)), ChangeTakeProfit (Digits (5 / 2))])
       = Some (5 / 2)
   \<and> (0::real) < 7 / 100 \<and> (7 / 100 :: real) \<le> 1 \<and> (0::real) < 5 / 2 \<and> (5 / 2 :: real) \<le> 5"
proof -
  let ?c = "form_config [ChangeStopLoss (Digits (7 / 100)), ChangeTakeProfit (Digits (5 / 2))]"
  have sub: "handleSubmit (\<lambda>c. Resolved sample_result) ?c initial_state
      = Some (run (\<lambda>c. Resolved sample_result) ?c initial_state)"
    by (simp add: handleSubmit_def form_config_def initial_config_def form_valid_def
        number_input_valid_def initial_state_def)
  have sl: "stop_loss ?c = Some (7 / 100)" and tp: "take_profit ?c = Some (5 / 2)"
    by (simp_all add: form_config_def)
  show ?thesis
    using sub sl tp submitted_limits_in_range [OF sub, of "7 / 100" "5 / 2"]
    by simp
qed

section \<open>Properties of the engine\<close>


subsection \<open>A series shorter than the warm-up window\<close>

lemma decide_warm_up: "length history < warm_up strat \<Longrightarrow> decide strat history = Hold"
  by (cases strat) (simp_all add: Let_def)

lemma step_flat_hold:
  "position st = Flat \<Longrightarrow>
     step config Hold bar st = st\<lparr>equity_curve := equity_curve st @ [capital st]\<rparr>"
  by (simp add: step_def mark_to_market_def)

lemma walk_warm_up:
  "position st = Flat \<Longrightarrow> length seen + length rest < warm_up strat \<Longrightarrow>
     walk config strat seen rest st
       = st\<lparr>equity_curve := equity_curve st @ replicate (length rest) (capital st)\<rparr>"
proof (induction rest arbitrary: seen st)
  case Nil
  then show ?case by simp
next
  case (Cons bar rest)
  have hold: "decide strat (seen @ [bar]) = Hold"
    using Cons.prems(2) by (intro decide_warm_up) simp
  let ?st = "st\<lparr>equity_curve := equity_curve st @ [capital st]\<rparr>"
  have "walk config strat (seen @ [bar]) rest ?st
      = ?st\<lparr>equity_curve := equity_curve ?st @ replicate (length rest) (capital ?st)\<rparr>"
    using Cons.prems by (intro Cons.IH) simp_all
  then show ?case
    using hold Cons.prems(1) by (simp add: step_flat_hold replicate_append_same)
qed

lemma close_position_flat:
  "position st = Flat \<Longrightarrow> close_position config day price reason st = st"
  by (simp add: close_position_def)

lemma simulate_warm_up:
  assumes "length bars < warm_up strat"
  shows "simulate config strat bars
     = \<lparr>position = Flat, capital = initial_capital config, ledger = [],
        equity_curve = replicate (length bars) (initial_capital config)\<rparr>"
proof -
  let ?st = "\<lparr>position = Flat, capital = initial_capital config, ledger = [],
      equity_curve = []\<rparr>"
  have "walk config strat [] bars ?st
      = ?st\<lparr>equity_curve := equity_curve ?st @ replicate (length bars) (capital ?st)\<rparr>"
    using assms by (intro walk_warm_up) simp_all
  then show ?thesis
    by (simp add: simulate_def force_close_def close_position_flat split: list.splits)
qed

subsection \<open>A constant EquityCurve\<close>

lemma mean_replicate: "0 < n \<Longrightarrow> mean (replicate n v) = v"
  by (simp add: mean_def sum_list_replicate)

lemma stdev_replicate: "stdev (replicate n v) = 0"
proof (cases "n < 2")
  case True
  then show ?thesis by (simp add: stdev_def)
next
  case False
  then have "mean (replicate n v) = v" by (simp add: mean_replicate)
  then have "map (\<lambda>x. (x - mean (replicate n v))\<^sup>2) (replicate n v) = replicate n 0"
    by simp
  then show ?thesis by (simp add: stdev_def sum_list_replicate)
qed

lemma butlast_replicate_same: "butlast (replicate n v) = replicate (n - 1) v"
  by (induction n) (auto simp: gr0_conv_Suc)

lemma daily_returns_replicate:
  "daily_returns (replicate n v) = replicate (n - 1) (v / v - 1)"
  by (simp add: daily_returns_def butlast_replicate_same)

text \<open>
  The part of claim C2 that exact arithmetic can state: on a constant EquityCurve the
  Sharpe ratio is exactly 0.
\<close>

lemma sharpe_ratio_constant_curve: "sharpe_ratio_of (replicate n v) = 0"
  by (simp add: sharpe_ratio_of_def daily_returns_replicate stdev_replicate)

text \<open>
  Claim C5. For a valid configuration and a fetched (hence non-empty) Bar Series that is
  shorter than the warm-up window of the selected strategy, the run ends without error
  in a BacktestResult with no trade, \<open>total_trades = 0\<close>, \<open>win_rate = 0\<close> and
  \<open>sharpe_ratio = 0\<close>; and when the hook receives a result without trades, the page
  shows the metrics and the no-trades message, and no error banner.
\<close>

theorem short_series_no_trades:
  assumes "validate registry config = Inr strat" and "bars \<noteq> []"
    and "length bars < warm_up strat"
  shows "\<exists>r. run_backtest registry config bars = Inr r
      \<and> total_trades r = 0 \<and> win_rate r = 0 \<and> sharpe_ratio r = 0 \<and> trades r = []
      \<and> (\<forall>api s. api config = Resolved r \<longrightarrow>
            results_panel (fst (run api config s)) = [PerformanceMetrics r, NoTradesMessage])
      \<and> (\<forall>r' api s. trades r' = [] \<and> api config = Resolved r' \<longrightarrow>
            results_panel (fst (run api config s)) = [PerformanceMetrics r', NoTradesMessage])"
proof -
  let ?r = "analyze config bars (simulate config strat bars)"
  have run_ok: "run_backtest registry config bars = Inr ?r"
    using assms(1,2) by (simp add: run_backtest_def)
  have sim: "simulate config strat bars
     = \<lparr>position = Flat, capital = initial_capital config, ledger = [],
        equity_curve = replicate (length bars) (initial_capital config)\<rparr>"
    using assms(3) by (rule simulate_warm_up)
  have none: "trades ?r = []" and count: "total_trades ?r = 0"
    by (simp_all add: sim analyze_def Let_def)
  have wins: "win_rate ?r = 0"
    by (simp add: sim analyze_def Let_def win_rate_of_def)
  have sharpe: "sharpe_ratio ?r = 0"
    by (simp add: sim analyze_def Let_def sharpe_ratio_constant_curve)
  have shown: "results_panel (fst (run api config s)) = [PerformanceMetrics r', NoTradesMessage]"
    if "trades r' = []" and "api config = Resolved r'" for r' api s
    using that by (simp add: results_panel_def run_def run_begin_def)
  show ?thesis
    using run_ok none count wins sharpe shown by blast
qed

theorem short_series_no_trades_witness:
  "validate sample_registry (initial_config\<lparr>strategy_type := ''ma_crossover''\<rparr>)
     = Inr (MovingAverageCrossover 10 20)
   \<and> length [flat_bar 0 100, flat_bar 1 104, flat_bar 2 99, flat_bar 3 107, flat_bar 6 111]
       < warm_up (MovingAverageCrossover 10 20)
   \<and> (\<exists>r. run_backtest sample_registry (initial_config\<lparr>strategy_type := ''ma_crossover''\<rparr>)
            [flat_bar 0 100, flat_bar 1 104, flat_bar 2 99, flat_bar 3 107, flat_bar 6 111] = Inr r
        \<and> total_trades r = 0 \<and> win_rate r = 0 \<and> sharpe_ratio r = 0 \<and> trades r = []
        \<and> results_panel (fst (run (\<lambda>c. Resolved r)
              (initial_config\<lparr>strategy_type := ''ma_crossover''\<rparr>) initial_state))
            = [PerformanceMetrics r, NoTradesMessage])"
proof -
  let ?c = "initial_config\<lparr>strategy_type := ''ma_crossover''\<rparr>"
  let ?bars = "[flat_bar 0 100, flat_bar 1 104, flat_bar 2 99, flat_bar 3 107, flat_bar 6 111]"
  have valid: "validate sample_registry ?c = Inr (MovingAverageCrossover 10 20)"
    by (simp add: validate_def sample_registry_def initial_config_def)
  have short: "length ?bars < warm_up (MovingAverageCrossover 10 20)" by simp
  have "?bars \<noteq> []" by simp
  from short_series_no_trades [OF valid this short]
  obtain r where r: "run_backtest sample_registry ?c ?bars = Inr r"
      "total_trades r = 0" "win_rate r = 0" "sharpe_ratio r = 0" "trades r = []"
    and page: "\<forall>api s. api ?c = Resolved r \<longrightarrow>
      results_panel (fst (run api ?c s)) = [PerformanceMetrics r, NoTradesMessage]"
    by blast
  from page have "results_panel (fst (run (\<lambda>c. Resolved r) ?c initial_state))
      = [PerformanceMetrics r, NoTradesMessage]"
    by simp
  with r valid short show ?thesis by blast
qed

subsection \<open>Buy-and-hold at zero cost\<close>




text \<open>
  A stop loss or a take profit ends a buy-and-hold position before the last bar: with
  a stop at 10 percent and the lows 100, 80, 120, and with a target at 10 percent and
  the highs 100, 120, 90, the only trade leaves on the second day.
\<close>

lemma limits_end_buy_and_hold:
  "map_sum id (map (\<lambda>t. (entry_date t, exit_date t, exit_reason t)) \<circ> trades)
     (run_backtest sample_registry (zero_cost_config\<lparr>stop_loss := Some (1 / 10)\<rparr>)
        [flat_bar 0 100, flat_bar 1 80, flat_bar 2 120])
   = Inr [(0, 1, stop_loss_exit)]
   \<and> map_sum id (map (\<lambda>t. (entry_date t, exit_date t, exit_reason t)) \<circ> trades)
     (run_backtest sample_registry (zero_cost_config\<lparr>take_profit := Some (1 / 10)\<rparr>)
        [flat_bar 0 100, flat_bar 1 120, flat_bar 2 90])
   = Inr [(0, 1, take_profit_exit)]"
  by (simp add: zero_cost_config_def initial_config_def sample_registry_def validate_def
      run_backtest_def analyze_def simulate_def force_close_def step_def open_position_def
      close_position_def exit_trigger_def mark_to_market_def flat_bar_def Let_def)



end
